theory Spec2Isabelle
  imports Complex_Main
begin

section \<open>Calendar dates\<close>

text \<open>
  The three pages read the column \<open>Date\<close> as pandas timestamps and hand the frame to
  DuckDB. A timestamp without a time of day is a count of days; a date is modelled as the
  number of days since 1970-01-01 (an \<open>int\<close>), so that comparison, \<open>+ INTERVAL 1 DAY\<close>
  and the day of the week are integer arithmetic. The conversions between a day count
  and a civil date (year, month, day) of the proleptic Gregorian calendar are the usual
  era-based ones (an era is 400 years, 146097 days, and starts on 1 March).
\<close>

type_synonym date = int

definition days_from_civil :: "int \<Rightarrow> int \<Rightarrow> int \<Rightarrow> date" where
  "days_from_civil y m d =
     (let y' = (if m \<le> 2 then y - 1 else y);
          era = y' div 400;
          yoe = y' mod 400;
          mp = (if m > 2 then m - 3 else m + 9);
          doy = (153 * mp + 2) div 5 + d - 1;
          doe = yoe * 365 + yoe div 4 - yoe div 100 + doy
      in era * 146097 + doe - 719468)"

text \<open>The day of the era is split into centuries, four-year cycles and years; the last
  day of a 400-year era and of a four-year cycle is the leap day, hence the two \<open>min\<close>.\<close>

definition day_of_year_era :: "date \<Rightarrow> int \<times> int \<times> int" where
  "day_of_year_era z =
     (let z' = z + 719468;
          era = z' div 146097;
          doe = z' mod 146097;
          c = min (doe div 36524) 3;
          r1 = doe - c * 36524;
          q = r1 div 1461;
          r2 = r1 mod 1461;
          y1 = min (r2 div 365) 3;
          doy = r2 - y1 * 365
      in (era, c * 100 + q * 4 + y1, doy))"

definition month_of :: "date \<Rightarrow> int" where
  "month_of z =
     (case day_of_year_era z of (era, yoe, doy) \<Rightarrow>
        let mp = (5 * doy + 2) div 153 in if mp < 10 then mp + 3 else mp - 9)"

definition day_of :: "date \<Rightarrow> int" where
  "day_of z =
     (case day_of_year_era z of (era, yoe, doy) \<Rightarrow>
        let mp = (5 * doy + 2) div 153 in doy - (153 * mp + 2) div 5 + 1)"

definition year_of :: "date \<Rightarrow> int" where
  "year_of z =
     (case day_of_year_era z of (era, yoe, doy) \<Rightarrow>
        yoe + era * 400 + (if month_of z \<le> 2 then 1 else 0))"

text \<open>pandas \<open>dayofweek\<close>: Monday is 0, Sunday is 6; 1970-01-01 was a Thursday.\<close>

definition dayofweek :: "date \<Rightarrow> int" where
  "dayofweek z = (z + 3) mod 7"

text \<open>\<open>strftime("%Y-%m-%d")\<close>: the year on four digits, month and day on two.\<close>

definition digit_char :: "nat \<Rightarrow> char" where
  "digit_char n = ''0123456789'' ! (n mod 10)"

definition pad2 :: "nat \<Rightarrow> string" where
  "pad2 n = [digit_char (n div 10), digit_char n]"

definition pad4 :: "nat \<Rightarrow> string" where
  "pad4 n = [digit_char (n div 1000), digit_char (n div 100), digit_char (n div 10), digit_char n]"

definition strftime_ymd :: "date \<Rightarrow> string" where
  "strftime_ymd z =
     pad4 (nat (year_of z)) @ ''-'' @ pad2 (nat (month_of z)) @ ''-'' @ pad2 (nat (day_of z))"

text \<open>The cast of a literal \<open>'YYYY-MM-DD'\<close> to a date, as DuckDB does for a
  comparison of the column \<open>Date\<close> with a string; anything else is not a date.\<close>

definition digit_val :: "char \<Rightarrow> int option" where
  "digit_val c = map_of (zip ''0123456789'' [0, 1, 2, 3, 4, 5, 6, 7, 8, 9]) c"

fun number_of_digits :: "int \<Rightarrow> char list \<Rightarrow> int option" where
  "number_of_digits acc [] = Some acc"
| "number_of_digits acc (c # cs) =
     (case digit_val c of None \<Rightarrow> None | Some v \<Rightarrow> number_of_digits (10 * acc + v) cs)"

definition date_of_string :: "string \<Rightarrow> date option" where
  "date_of_string s =
     (if length s = 10 \<and> s ! 4 = CHR ''-'' \<and> s ! 7 = CHR ''-'' then
        (case (number_of_digits 0 (take 4 s), number_of_digits 0 (take 2 (drop 5 s)),
               number_of_digits 0 (drop 8 s)) of
           (Some y, Some m, Some d) \<Rightarrow> Some (days_from_civil y m d)
         | _ \<Rightarrow> None)
      else None)"


section \<open>The daily records and the loaders\<close>

text \<open>
  One row of \<open>updated_data.csv\<close> after \<open>read_csv\<close>. An empty cell is NaN or NaT in
  pandas and NULL in DuckDB: \<open>None\<close>. Temperatures and precipitation are floating-point
  numbers in the program and real numbers here. The columns \<open>Year\<close> and \<open>Decade\<close> are
  the ones every page adds after loading; they are empty in the table as read.
\<close>

record day_row =
  Date :: "date option"
  TMAX :: "real option"
  TMIN :: "real option"
  TAVG :: "real option"
  PRCP :: "real option"
  Year :: "int option"
  Decade :: "int option"

record frame =
  columns :: "string list"
  rows :: "day_row list"

text \<open>\<open>str.strip()\<close> removes the leading and trailing white space of a label.\<close>

definition is_space :: "char \<Rightarrow> bool" where
  "is_space c = (c \<in> set [CHR '' '', CHR 0x09, CHR 0x0A, CHR 0x0B, CHR 0x0C, CHR 0x0D])"

definition strip :: "string \<Rightarrow> string" where
  "strip s = rev (dropWhile is_space (rev (dropWhile is_space s)))"

text \<open>\<open>df[df["Date"] >= "1949-01-01"]\<close>: the string is read as a date, and a row
  without a date compares false.\<close>

definition date_ge :: "date option \<Rightarrow> date \<Rightarrow> bool" where
  "date_ge d lo = (case d of None \<Rightarrow> False | Some z \<Rightarrow> lo \<le> z)"

definition min_date :: date where
  "min_date = days_from_civil 1949 1 1"

text \<open>\<open>load_data\<close> of \<open>Snapshot.py\<close>.\<close>

definition load_data_snapshot :: "frame \<Rightarrow> frame" where
  "load_data_snapshot csv =
     (let df = csv;
          df = df\<lparr>columns := map strip (columns df)\<rparr>;
          df = df\<lparr>rows := filter (\<lambda>r. date_ge (Date r) min_date) (rows df)\<rparr>
      in df)"


text \<open>\<open>load_data\<close> of \<open>pages/3_Climate History By Day.py\<close>.\<close>

definition load_data_history :: "frame \<Rightarrow> frame" where
  "load_data_history csv =
     (let df = csv;
          df = df\<lparr>columns := map strip (columns df)\<rparr>;
          df = df\<lparr>rows := filter (\<lambda>r. date_ge (Date r) min_date) (rows df)\<rparr>
      in df)"

text \<open>\<open>df["Year"] = df["Date"].dt.year\<close> and \<open>df["Decade"] = (df["Year"] // 10) * 10\<close>.\<close>

definition add_year :: "day_row \<Rightarrow> day_row" where
  "add_year r = r\<lparr>Year := map_option year_of (Date r)\<rparr>"

definition add_decade :: "day_row \<Rightarrow> day_row" where
  "add_decade r = r\<lparr>Decade := map_option (\<lambda>y. (y div 10) * 10) (Year r)\<rparr>"

text \<open>The table \<open>weather\<close> that \<open>Snapshot.py\<close> registers.\<close>

definition snapshot_weather :: "frame \<Rightarrow> day_row list" where
  "snapshot_weather csv = map add_decade (map add_year (rows (load_data_snapshot csv)))"

text \<open>The table \<open>weather\<close> of the history page. The page adds two more columns,
  \<open>Month\<close> and \<open>Day\<close>, which none of its queries reads (they extract both from
  \<open>Date\<close>), and registers the frame again.\<close>

definition history_weather :: "frame \<Rightarrow> day_row list" where
  "history_weather csv = map add_decade (map add_year (rows (load_data_history csv)))"






section \<open>Building blocks of the queries\<close>

text \<open>SQL aggregates skip NULL and are NULL when no value is left.\<close>

fun non_null :: "'a option list \<Rightarrow> 'a list" where
  "non_null [] = []"
| "non_null (None # xs) = non_null xs"
| "non_null (Some v # xs) = v # non_null xs"

definition sql_avg :: "real option list \<Rightarrow> real option" where
  "sql_avg xs =
     (let vs = non_null xs in if vs = [] then None else Some (sum_list vs / real (length vs)))"

definition sql_sum :: "real option list \<Rightarrow> real option" where
  "sql_sum xs = (let vs = non_null xs in if vs = [] then None else Some (sum_list vs))"



text \<open>A comparison with NULL is not true.\<close>

definition sql_lt :: "('a::linorder) option \<Rightarrow> 'a \<Rightarrow> bool" where
  "sql_lt v c = (case v of None \<Rightarrow> False | Some x \<Rightarrow> x < c)"

definition sql_gt :: "('a::linorder) option \<Rightarrow> 'a \<Rightarrow> bool" where
  "sql_gt v c = (case v of None \<Rightarrow> False | Some x \<Rightarrow> c < x)"

text \<open>\<open>ORDER BY\<close>: a stable insertion sort for an order given as a relation. DuckDB
  puts NULL last in both directions.\<close>

fun insert_by :: "('a \<Rightarrow> 'a \<Rightarrow> bool) \<Rightarrow> 'a \<Rightarrow> 'a list \<Rightarrow> 'a list" where
  "insert_by le x [] = [x]"
| "insert_by le x (y # ys) = (if le x y then x # y # ys else y # insert_by le x ys)"

definition order_by :: "('a \<Rightarrow> 'a \<Rightarrow> bool) \<Rightarrow> 'a list \<Rightarrow> 'a list" where
  "order_by le xs = foldr (insert_by le) xs []"

fun asc_nulls_last :: "('a::linorder) option \<Rightarrow> 'a option \<Rightarrow> bool" where
  "asc_nulls_last _ None = True"
| "asc_nulls_last None (Some _) = False"
| "asc_nulls_last (Some a) (Some b) = (a \<le> b)"

fun desc_nulls_last :: "('a::linorder) option \<Rightarrow> 'a option \<Rightarrow> bool" where
  "desc_nulls_last _ None = True"
| "desc_nulls_last None (Some _) = False"
| "desc_nulls_last (Some a) (Some b) = (b \<le> a)"


text \<open>\<open>EXTRACT(MONTH FROM Date)\<close> and \<open>EXTRACT(DAY FROM Date)\<close>.\<close>

definition extract_month :: "date option \<Rightarrow> int option" where
  "extract_month d = map_option month_of d"

definition extract_day :: "date option \<Rightarrow> int option" where
  "extract_day d = map_option day_of d"


section \<open>The queries of the snapshot page\<close>



text \<open>The two annual queries return rows \<open>(Year, value)\<close>.\<close>

definition annual_avg_sql :: "day_row list \<Rightarrow> (int option \<times> real option) list" where
  "annual_avg_sql weather =
     (let sel = filter (\<lambda>r. sql_lt (Year r) 2025) weather;
          grouped =
            map (\<lambda>k. (k, sql_avg (map TAVG (filter (\<lambda>r. Year r = k) sel))))
                (remdups (map Year sel))
      in order_by (\<lambda>a b. asc_nulls_last (fst a) (fst b)) grouped)"

definition annual_total_prcp :: "day_row list \<Rightarrow> (int option \<times> real option) list" where
  "annual_total_prcp weather =
     (let sel = filter (\<lambda>r. sql_lt (Year r) 2025) weather;
          grouped =
            map (\<lambda>k. (k, sql_sum (map PRCP (filter (\<lambda>r. Year r = k) sel))))
                (remdups (map Year sel))
      in order_by (\<lambda>a b. asc_nulls_last (fst a) (fst b)) grouped)"

text \<open>The three lists of extreme days return rows \<open>(Date, value)\<close>.\<close>

definition warmest_days :: "day_row list \<Rightarrow> (date option \<times> real option) list" where
  "warmest_days weather =
     take 10 (order_by (\<lambda>a b. desc_nulls_last (snd a) (snd b))
                (map (\<lambda>r. (Date r, TMAX r)) (filter (\<lambda>r. TMAX r \<noteq> None) weather)))"

definition coldest_days :: "day_row list \<Rightarrow> (date option \<times> real option) list" where
  "coldest_days weather =
     take 10 (order_by (\<lambda>a b. asc_nulls_last (snd a) (snd b))
                (map (\<lambda>r. (Date r, TMIN r)) (filter (\<lambda>r. TMIN r \<noteq> None) weather)))"

definition wettest_days :: "day_row list \<Rightarrow> (date option \<times> real option) list" where
  "wettest_days weather =
     take 10 (order_by (\<lambda>a b. desc_nulls_last (snd a) (snd b))
                (map (\<lambda>r. (Date r, PRCP r)) (filter (\<lambda>r. PRCP r \<noteq> None) weather)))"


section \<open>The queries of the history page\<close>





text \<open>The query \<open>dry_streaks\<close>, one definition for each of its common table expressions.\<close>

record clean_row =
  Date_c :: date
  PRCP_c :: "real option"
  is_dry :: int

definition weather_clean :: "day_row list \<Rightarrow> clean_row list" where
  "weather_clean weather =
     order_by (\<lambda>a b. Date_c a \<le> Date_c b)
       (concat (map (\<lambda>r. case Date r of
                           None \<Rightarrow> []
                         | Some d \<Rightarrow>
                             [\<lparr>Date_c = d, PRCP_c = PRCP r,
                               is_dry = (if PRCP r = None \<or> PRCP r = Some 0 then 1 else 0)\<rparr>])
                 weather))"

text \<open>\<open>runs\<close> adds to each row the number of wet rows up to and including it, in the
  order of the dates: a row is paired with its \<open>wet_group\<close>.\<close>

fun running_wet :: "int \<Rightarrow> clean_row list \<Rightarrow> (clean_row \<times> int) list" where
  "running_wet acc [] = []"
| "running_wet acc (r # rs) =
     (let acc' = acc + (if is_dry r = 0 then 1 else 0) in (r, acc') # running_wet acc' rs)"

definition runs :: "day_row list \<Rightarrow> (clean_row \<times> int) list" where
  "runs weather = running_wet 0 (weather_clean weather)"

record streak_row =
  wet_group :: int
  StartDate :: date
  EndDate :: date
  StreakDays :: nat

definition streak_groups :: "day_row list \<Rightarrow> streak_row list" where
  "streak_groups weather =
     (let sel = filter (\<lambda>(r, g). is_dry r = 1) (runs weather)
      in map (\<lambda>k. let grp = filter (\<lambda>(r, g). g = k) sel
                  in \<lparr>wet_group = k,
                      StartDate = Min (set (map (\<lambda>(r, g). Date_c r) grp)),
                      EndDate = Max (set (map (\<lambda>(r, g). Date_c r) grp)),
                      StreakDays = length grp\<rparr>)
             (remdups (map snd sel)))"

definition streaks :: "day_row list \<Rightarrow> streak_row list" where
  "streaks weather = filter (\<lambda>s. StreakDays s \<ge> 150) (streak_groups weather)"

text \<open>\<open>rain_on_next_day\<close> joins every streak with the rows of \<open>weather\<close> dated one day
  after its end and keeps the pairs with more than 0.01 inches.\<close>

definition rain_on_next_day :: "day_row list \<Rightarrow> (streak_row \<times> day_row) list" where
  "rain_on_next_day weather =
     concat (map (\<lambda>s. map (\<lambda>w. (s, w))
                        (filter (\<lambda>w. Date w = Some (EndDate s + 1) \<and> sql_gt (PRCP w) (1 / 100))
                           weather))
               (streaks weather))"

text \<open>The rows of the result: the column called \<open>EndDate\<close> is the date of the rain.\<close>

record dry_streak_row =
  EndDate_out :: "date option"
  StartDate_out :: date
  streak_length :: nat
  Rain :: "real option"

definition dry_streaks :: "day_row list \<Rightarrow> dry_streak_row list" where
  "dry_streaks weather =
     map (\<lambda>(s, w). \<lparr>EndDate_out = Date w, StartDate_out = StartDate s,
                     streak_length = StreakDays s, Rain = PRCP w\<rparr>)
       (rain_on_next_day weather)"


section \<open>The holiday page\<close>

text \<open>\<open>pd.date_range(start, end)\<close>: every day from \<open>start\<close> to \<open>end\<close>, both included.\<close>

definition date_range :: "date \<Rightarrow> date \<Rightarrow> date list" where
  "date_range start stop = map (\<lambda>i. start + int i) [0..<nat (stop - start + 1)]"

text \<open>
  The body of the loop of \<open>get_variable_holiday_dates\<close>. \<open>max\<close> and \<open>min\<close> of an empty
  series raise \<open>ValueError\<close>, \<open>iloc[3]\<close> on fewer than four rows raises \<open>IndexError\<close>.
\<close>

datatype py_error = ValueError | IndexError

definition memorial :: "int \<Rightarrow> py_error + date" where
  "memorial year =
     (let mondays = filter (\<lambda>x. dayofweek x = 0)
                      (date_range (days_from_civil year 5 1) (days_from_civil year 5 31))
      in if mondays = [] then Inl ValueError else Inr (Max (set mondays)))"

definition labor :: "int \<Rightarrow> py_error + date" where
  "labor year =
     (let mondays = filter (\<lambda>x. dayofweek x = 0)
                      (date_range (days_from_civil year 9 1) (days_from_civil year 9 7))
      in if mondays = [] then Inl ValueError else Inr (Min (set mondays)))"

definition thanksgiving :: "int \<Rightarrow> py_error + date" where
  "thanksgiving year =
     (let thursdays = filter (\<lambda>x. dayofweek x = 3)
                        (date_range (days_from_civil year 11 1) (days_from_civil year 11 30))
      in if 3 < length thursdays then Inr (thursdays ! 3) else Inl IndexError)"

record holiday_dates =
  Memorial_Day :: "string list"
  Labor_Day :: "string list"
  Thanksgiving :: "string list"

fun holiday_loop :: "int list \<Rightarrow> holiday_dates \<Rightarrow> py_error + holiday_dates" where
  "holiday_loop [] acc = Inr acc"
| "holiday_loop (year # years) acc =
     (case memorial year of Inl e \<Rightarrow> Inl e | Inr m \<Rightarrow>
      case labor year of Inl e \<Rightarrow> Inl e | Inr l \<Rightarrow>
      case thanksgiving year of Inl e \<Rightarrow> Inl e | Inr t \<Rightarrow>
        holiday_loop years
          \<lparr>Memorial_Day = Memorial_Day acc @ [strftime_ymd m],
           Labor_Day = Labor_Day acc @ [strftime_ymd l],
           Thanksgiving = Thanksgiving acc @ [strftime_ymd t]\<rparr>)"

text \<open>\<open>now_year\<close> is \<open>datetime.now().year\<close>; the years are \<open>range(1949, now_year + 1)\<close>.\<close>

definition get_variable_holiday_dates :: "int \<Rightarrow> py_error + holiday_dates" where
  "get_variable_holiday_dates now_year =
     holiday_loop [1949..now_year] \<lparr>Memorial_Day = [], Labor_Day = [], Thanksgiving = []\<rparr>"

text \<open>The rows that the holiday queries select, with the columns \<open>Holiday\<close> and \<open>Year\<close>
  that the page adds to them.\<close>

record holiday_row =
  Date_h :: "date option"
  TMAX_h :: "real option"
  TMIN_h :: "real option"
  TAVG_h :: "real option"
  PRCP_h :: "real option"
  Holiday :: string
  Year_h :: "int option"

definition select_holiday :: "string \<Rightarrow> day_row \<Rightarrow> holiday_row" where
  "select_holiday name r =
     \<lparr>Date_h = Date r, TMAX_h = TMAX r, TMIN_h = TMIN r, TAVG_h = TAVG r, PRCP_h = PRCP r,
      Holiday = name, Year_h = None\<rparr>"

definition holiday_names :: "(string \<times> int \<times> int) list" where
  "holiday_names =
     [(''New Year's Day'', 1, 1), (''Independence Day'', 7, 4), (''Christmas'', 12, 25)]"

definition fixed_holiday_query :: "day_row list \<Rightarrow> string \<times> int \<times> int \<Rightarrow> holiday_row list" where
  "fixed_holiday_query weather h =
     (case h of (name, month, day) \<Rightarrow>
        map (select_holiday name)
          (filter (\<lambda>r. extract_month (Date r) = Some month \<and> extract_day (Date r) = Some day)
             weather))"

text \<open>\<open>Date IN ('...', '...')\<close>: the strings are read as dates and compared with the
  column; a row without a date is in no list.\<close>

definition date_in :: "date option \<Rightarrow> string list \<Rightarrow> bool" where
  "date_in d dates = (case d of None \<Rightarrow> False | Some z \<Rightarrow> Some z \<in> set (map date_of_string dates))"

definition variable_holiday_query :: "day_row list \<Rightarrow> string \<times> string list \<Rightarrow> holiday_row list" where
  "variable_holiday_query weather h =
     (case h of (name, dates) \<Rightarrow>
        map (select_holiday name) (filter (\<lambda>r. date_in (Date r) dates) weather))"

definition variable_holidays_items :: "holiday_dates \<Rightarrow> (string \<times> string list) list" where
  "variable_holidays_items variable_holidays =
     [(''Memorial Day'', Memorial_Day variable_holidays),
      (''Labor Day'', Labor_Day variable_holidays),
      (''Thanksgiving'', Thanksgiving variable_holidays)]"

definition all_holidays_df :: "int \<Rightarrow> day_row list \<Rightarrow> py_error + holiday_row list" where
  "all_holidays_df now_year weather =
     (case get_variable_holiday_dates now_year of
        Inl e \<Rightarrow> Inl e
      | Inr variable_holidays \<Rightarrow>
          (let summary_rows =
                 map (fixed_holiday_query weather) holiday_names
                 @ map (variable_holiday_query weather) (variable_holidays_items variable_holidays)
           in Inr (map (\<lambda>r. r\<lparr>Year_h := map_option year_of (Date_h r)\<rparr>) (concat summary_rows))))"

definition holiday_order :: "string list" where
  "holiday_order =
     [''New Year's Day'', ''Memorial Day'', ''Independence Day'', ''Labor Day'',
      ''Thanksgiving'', ''Christmas'']"

text \<open>\<open>holiday_df\<close> of the display loop, sorted by year, and the chance of rain: the mean
  of the truth values of \<open>PRCP > 0\<close>, times 100. The mean of no value is NaN: \<open>None\<close>.\<close>

definition holiday_df :: "holiday_row list \<Rightarrow> string \<Rightarrow> holiday_row list" where
  "holiday_df all_holidays holiday =
     order_by (\<lambda>a b. asc_nulls_last (Year_h a) (Year_h b))
       (filter (\<lambda>r. Holiday r = holiday) all_holidays)"

definition precip_chance :: "holiday_row list \<Rightarrow> real option" where
  "precip_chance hdf =
     (if hdf = [] then None
      else Some (real (length (filter (\<lambda>r. sql_gt (PRCP_h r) 0) hdf)) / real (length hdf) * 100))"


section \<open>The properties, in the words of the specification\<close>

subsection \<open>Dry streaks\<close>

text \<open>A maximal run of dry days in the series ordered by date: the rows \<open>run\<close> are all
  dry, the row before them (the last of \<open>pre\<close>) and the row after them (the first of
  \<open>post\<close>), where there is one, are wet. The wet rows of \<open>pre\<close> number the run.\<close>

definition maximal_dry_run :: "clean_row list \<Rightarrow> clean_row list \<Rightarrow> clean_row list \<Rightarrow> bool" where
  "maximal_dry_run pre run post =
     (run \<noteq> [] \<and> list_all (\<lambda>r. is_dry r = 1) run
      \<and> (pre = [] \<or> is_dry (last pre) = 0) \<and> (post = [] \<or> is_dry (hd post) = 0))"

definition wet_rows :: "clean_row list \<Rightarrow> int" where
  "wet_rows pre = int (length (filter (\<lambda>r. is_dry r = 0) pre))"

text \<open>The run is in the result: a row with its first day, its length, and the day after
  its last day as the day of the rain.\<close>

definition reported :: "day_row list \<Rightarrow> clean_row list \<Rightarrow> bool" where
  "reported weather run =
     list_ex (\<lambda>r. StartDate_out r = Date_c (hd run) \<and> streak_length r = length run
                 \<and> EndDate_out r = Some (Date_c (last run) + 1))
       (dry_streaks weather)"


text \<open>The series of 400 days: day \<open>k\<close> is the \<open>k\<close>-th day of the year 2000 and later;
  days 100 to 260 are dry, day 261 has half an inch, every other day a tenth.\<close>

definition day_number :: "int \<Rightarrow> date" where
  "day_number k = days_from_civil 1999 12 31 + k"

definition synthetic_day :: "int \<Rightarrow> day_row" where
  "synthetic_day k =
     \<lparr>Date = Some (day_number k), TMAX = None, TMIN = None, TAVG = None,
      PRCP = Some (if 100 \<le> k \<and> k \<le> 260 then 0 else if k = 261 then 1 / 2 else 1 / 10),
      Year = None, Decade = None\<rparr>"

definition synthetic_csv :: frame where
  "synthetic_csv = \<lparr>columns = [], rows = map synthetic_day [1..400]\<rparr>"

text \<open>The same with 149 dry days only, days 100 to 248, and half an inch on day 249.\<close>

definition short_day :: "int \<Rightarrow> day_row" where
  "short_day k =
     \<lparr>Date = Some (day_number k), TMAX = None, TMIN = None, TAVG = None,
      PRCP = Some (if 100 \<le> k \<and> k \<le> 248 then 0 else if k = 249 then 1 / 2 else 1 / 10),
      Year = None, Decade = None\<rparr>"

definition short_csv :: frame where
  "short_csv = \<lparr>columns = [], rows = map short_day [1..400]\<rparr>"

text \<open>A series that ends with a dry streak: a tenth of an inch on day 1, then 150 dry
  days, days 2 to 151, and no row for day 152.\<close>

definition trailing_day :: "int \<Rightarrow> day_row" where
  "trailing_day k =
     \<lparr>Date = Some (day_number k), TMAX = None, TMIN = None, TAVG = None,
      PRCP = Some (if 2 \<le> k then 0 else 1 / 10), Year = None, Decade = None\<rparr>"

definition trailing_csv :: frame where
  "trailing_csv = \<lparr>columns = [], rows = map trailing_day [1..151]\<rparr>"

text \<open>The rows of \<open>weather_clean\<close> for the days \<open>i\<close> to \<open>j\<close> of such a series.\<close>

definition clean_days :: "(int \<Rightarrow> day_row) \<Rightarrow> int \<Rightarrow> int \<Rightarrow> clean_row list" where
  "clean_days series i j =
     map (\<lambda>k. \<lparr>Date_c = day_number k, PRCP_c = PRCP (series k),
               is_dry = (if PRCP (series k) = None \<or> PRCP (series k) = Some 0 then 1 else 0)\<rparr>)
       [i..j]"

subsection \<open>Chance of rain\<close>



definition measured :: "int \<Rightarrow> int \<Rightarrow> int \<Rightarrow> real option \<Rightarrow> real option \<Rightarrow> real option \<Rightarrow> day_row" where
  "measured y m d lo hi rain =
     \<lparr>Date = Some (days_from_civil y m d), TMAX = hi, TMIN = lo, TAVG = None, PRCP = rain,
      Year = None, Decade = None\<rparr>"


subsection \<open>Annual summary\<close>

definition excludes_current_year :: "int \<Rightarrow> (int option \<times> real option) list \<Rightarrow> bool" where
  "excludes_current_year current_year result = list_all (\<lambda>p. sql_lt (fst p) current_year) result"

definition june_2024_csv :: frame where
  "june_2024_csv =
     \<lparr>columns = [],
      rows = [\<lparr>Date = Some (days_from_civil 2024 6 1), TMAX = None, TMIN = None,
               TAVG = Some 70, PRCP = Some (1 / 10), Year = None, Decade = None\<rparr>]\<rparr>"

subsection \<open>Monthly climatology\<close>





subsection \<open>Extreme days\<close>

definition five_days_csv :: frame where
  "five_days_csv =
     \<lparr>columns = [],
      rows = [measured 2024 6 30 (Some 60) (Some 80) (Some 0),
              measured 2024 7 1 (Some 70) (Some 110) None,
              measured 2024 7 2 None None (Some (3 / 10)),
              measured 2024 7 3 (Some 55) (Some 80) (Some (1 / 10)),
              measured 1948 7 4 (Some 20) (Some 120) (Some 9)]\<rparr>"

subsection \<open>Floating holidays\<close>

definition last_monday_of_may :: "int \<Rightarrow> date \<Rightarrow> bool" where
  "last_monday_of_may y z =
     (\<exists>k\<in>set [1..31]. z = days_from_civil y 5 k \<and> dayofweek z = 0
        \<and> (\<forall>j\<in>set [k + 1..31]. dayofweek (days_from_civil y 5 j) \<noteq> 0))"

definition first_monday_of_september :: "int \<Rightarrow> date \<Rightarrow> bool" where
  "first_monday_of_september y z =
     (\<exists>k\<in>set [1..30]. z = days_from_civil y 9 k \<and> dayofweek z = 0
        \<and> (\<forall>j\<in>set [1..k - 1]. dayofweek (days_from_civil y 9 j) \<noteq> 0))"

definition fourth_thursday_of_november :: "int \<Rightarrow> date \<Rightarrow> bool" where
  "fourth_thursday_of_november y z =
     (\<exists>k\<in>set [1..30]. z = days_from_civil y 11 k \<and> dayofweek z = 3
        \<and> length (filter (\<lambda>j. dayofweek (days_from_civil y 11 j) = 3) [1..k]) = 4)"

subsection \<open>Holiday outlook\<close>

text \<open>Three Independence Days, one of them without precipitation and high temperature.\<close>

definition july_4th_csv :: frame where
  "july_4th_csv =
     \<lparr>columns = [],
      rows = [\<lparr>Date = Some (days_from_civil 2001 7 4), TMAX = None, TMIN = Some 60,
               TAVG = Some 70, PRCP = None, Year = None, Decade = None\<rparr>,
              measured 2002 7 4 (Some 61) (Some 85) (Some (2 / 10)),
              measured 2003 7 4 (Some 62) (Some 90) (Some 0),
              measured 2003 7 5 (Some 62) (Some 90) (Some 1)]\<rparr>"




section \<open>Ordering and limits\<close>

lemma set_insert_by: "set (insert_by le x xs) = insert x (set xs)"
  by (induction xs) auto

lemma set_order_by: "set (order_by le xs) = set xs"
  by (induction xs) (simp_all add: order_by_def set_insert_by)

lemma length_insert_by: "length (insert_by le x xs) = Suc (length xs)"
  by (induction xs) auto

lemma length_order_by: "length (order_by le xs) = length xs"
  by (induction xs) (simp_all add: order_by_def length_insert_by)

lemma sorted_insert_by:
  assumes tot: "\<And>a b. le a b \<or> le b a" and tr: "\<And>a b c. le a b \<Longrightarrow> le b c \<Longrightarrow> le a c"
  shows "sorted_wrt le xs \<Longrightarrow> sorted_wrt le (insert_by le x xs)"
proof (induction xs)
  case Nil
  then show ?case by simp
next
  case (Cons y ys)
  show ?case
  proof (cases "le x y")
    case True
    with Cons.prems tr show ?thesis by auto
  next
    case False
    with tot have "le y x" by blast
    with Cons False show ?thesis by (auto simp: set_insert_by)
  qed
qed

lemma sorted_order_by:
  assumes tot: "\<And>a b. le a b \<or> le b a" and tr: "\<And>a b c. le a b \<Longrightarrow> le b c \<Longrightarrow> le a c"
  shows "sorted_wrt le (order_by le xs)"
proof (induction xs)
  case Nil
  then show ?case by (simp add: order_by_def)
next
  case (Cons x xs)
  have "order_by le (x # xs) = insert_by le x (order_by le xs)" by (simp add: order_by_def)
  with Cons sorted_insert_by[OF tot tr] show ?case by simp
qed



lemma asc_nulls_last_total: "asc_nulls_last a b \<or> asc_nulls_last b a"
  by (cases a; cases b) auto

lemma asc_nulls_last_trans: "asc_nulls_last a b \<Longrightarrow> asc_nulls_last b c \<Longrightarrow> asc_nulls_last a c"
  by (cases a; cases b; cases c) auto

lemma desc_nulls_last_total: "desc_nulls_last a b \<or> desc_nulls_last b a"
  by (cases a; cases b) auto

lemma desc_nulls_last_trans: "desc_nulls_last a b \<Longrightarrow> desc_nulls_last b c \<Longrightarrow> desc_nulls_last a c"
  by (cases a; cases b; cases c) auto

lemma values_of_non_null:
  assumes "\<forall>p\<in>set xs. snd p \<noteq> None"
  shows "map snd xs = map Some (map (\<lambda>p. the (snd p)) xs)"
  using assms by (induction xs) auto

lemma top_descending:
  assumes nn: "\<forall>p\<in>set xs. snd p \<noteq> None"
  shows "\<exists>vs. map snd (take n (order_by (\<lambda>a b. desc_nulls_last (snd a) (snd b)) xs)) = map Some vs
            \<and> length vs \<le> n \<and> sorted_wrt (\<lambda>a b. b \<le> a) vs"
proof -
  let ?le = "\<lambda>a b. desc_nulls_last (snd a) (snd b)"
  let ?ys = "take n (order_by ?le xs)"
  let ?vs = "map (\<lambda>p. the (snd p)) ?ys"
  have sub: "set ?ys \<subseteq> set xs"
    using set_take_subset[of n "order_by ?le xs"] by (simp add: set_order_by)
  with nn have nn': "\<forall>p\<in>set ?ys. snd p \<noteq> None" by blast
  have "sorted_wrt ?le (order_by ?le xs)"
  proof (rule sorted_order_by)
    show "\<And>a b. ?le a b \<or> ?le b a" by (rule desc_nulls_last_total)
    show "\<And>a b c. ?le a b \<Longrightarrow> ?le b c \<Longrightarrow> ?le a c" by (rule desc_nulls_last_trans)
  qed
  then have srt: "sorted_wrt ?le ?ys" by (rule sorted_wrt_take)
  have "sorted_wrt (\<lambda>a b. the (snd b) \<le> the (snd a)) ?ys"
  proof (rule sorted_wrt_mono_rel[OF _ srt])
    fix a b assume "a \<in> set ?ys" "b \<in> set ?ys" "?le a b"
    with nn' show "the (snd b) \<le> the (snd a)" by (cases "snd a"; cases "snd b") auto
  qed
  then have "sorted_wrt (\<lambda>a b. b \<le> a) ?vs" by (simp add: sorted_wrt_map)
  moreover have "map snd ?ys = map Some ?vs" by (rule values_of_non_null[OF nn'])
  moreover have "length ?vs \<le> n" by simp
  ultimately show ?thesis by blast
qed

lemma top_ascending:
  assumes nn: "\<forall>p\<in>set xs. snd p \<noteq> None"
  shows "\<exists>vs. map snd (take n (order_by (\<lambda>a b. asc_nulls_last (snd a) (snd b)) xs)) = map Some vs
            \<and> length vs \<le> n \<and> sorted_wrt (\<lambda>a b. a \<le> b) vs"
proof -
  let ?le = "\<lambda>a b. asc_nulls_last (snd a) (snd b)"
  let ?ys = "take n (order_by ?le xs)"
  let ?vs = "map (\<lambda>p. the (snd p)) ?ys"
  have sub: "set ?ys \<subseteq> set xs"
    using set_take_subset[of n "order_by ?le xs"] by (simp add: set_order_by)
  with nn have nn': "\<forall>p\<in>set ?ys. snd p \<noteq> None" by blast
  have "sorted_wrt ?le (order_by ?le xs)"
  proof (rule sorted_order_by)
    show "\<And>a b. ?le a b \<or> ?le b a" by (rule asc_nulls_last_total)
    show "\<And>a b c. ?le a b \<Longrightarrow> ?le b c \<Longrightarrow> ?le a c" by (rule asc_nulls_last_trans)
  qed
  then have srt: "sorted_wrt ?le ?ys" by (rule sorted_wrt_take)
  have "sorted_wrt (\<lambda>a b. the (snd a) \<le> the (snd b)) ?ys"
  proof (rule sorted_wrt_mono_rel[OF _ srt])
    fix a b assume "a \<in> set ?ys" "b \<in> set ?ys" "?le a b"
    with nn' show "the (snd a) \<le> the (snd b)" by (cases "snd a"; cases "snd b") auto
  qed
  then have "sorted_wrt (\<lambda>a b. a \<le> b) ?vs" by (simp add: sorted_wrt_map)
  moreover have "map snd ?ys = map Some ?vs" by (rule values_of_non_null[OF nn'])
  moreover have "length ?vs \<le> n" by simp
  ultimately show ?thesis by blast
qed


section \<open>The loaders\<close>



section \<open>Extreme days\<close>

text \<open>
  Claim C7. Each of the three lists of extreme days has at most 10 rows, none of them with
  an empty value, and the values are in the order asked for: descending for the warmest
  and the wettest days, ascending for the coldest.
\<close>

theorem top_extreme_days:
  "(\<exists>vs. map snd (warmest_days weather) = map Some vs \<and> length vs \<le> 10
          \<and> sorted_wrt (\<lambda>a b. b \<le> a) vs)
   \<and> (\<exists>vs. map snd (coldest_days weather) = map Some vs \<and> length vs \<le> 10
          \<and> sorted_wrt (\<lambda>a b. a \<le> b) vs)
   \<and> (\<exists>vs. map snd (wettest_days weather) = map Some vs \<and> length vs \<le> 10
          \<and> sorted_wrt (\<lambda>a b. b \<le> a) vs)"
  unfolding warmest_days_def coldest_days_def wettest_days_def
  by (intro conjI top_descending top_ascending) auto

theorem top_extreme_days_witness:
  "warmest_days (snapshot_weather five_days_csv)
     = [(Some (days_from_civil 2024 7 1), Some 110), (Some (days_from_civil 2024 6 30), Some 80),
        (Some (days_from_civil 2024 7 3), Some 80)]
   \<and> (\<exists>vs. map snd (warmest_days (snapshot_weather five_days_csv)) = map Some vs
          \<and> length vs \<le> 10 \<and> sorted_wrt (\<lambda>a b. b \<le> a) vs)
   \<and> (\<exists>vs. map snd (coldest_days (snapshot_weather five_days_csv)) = map Some vs
          \<and> length vs \<le> 10 \<and> sorted_wrt (\<lambda>a b. a \<le> b) vs)
   \<and> (\<exists>vs. map snd (wettest_days (snapshot_weather five_days_csv)) = map Some vs
          \<and> length vs \<le> 10 \<and> sorted_wrt (\<lambda>a b. b \<le> a) vs)"
proof -
  have "warmest_days (snapshot_weather five_days_csv)
     = [(Some (days_from_civil 2024 7 1), Some 110), (Some (days_from_civil 2024 6 30), Some 80),
        (Some (days_from_civil 2024 7 3), Some 80)]"
    by code_simp
  with top_extreme_days[of "snapshot_weather five_days_csv"] show ?thesis
    by (intro conjI) (assumption | erule conjE)+
qed


section \<open>Annual summary\<close>

lemma sql_lt_mono: "sql_lt v c \<Longrightarrow> c \<le> c' \<Longrightarrow> sql_lt v c'"
  by (cases v) (auto simp: sql_lt_def)

lemma annual_excludes:
  "excludes_current_year 2025 (annual_avg_sql weather)"
  "excludes_current_year 2025 (annual_total_prcp weather)"
  unfolding excludes_current_year_def annual_avg_sql_def annual_total_prcp_def Let_def list_all_iff
    set_order_by
  by auto

lemma excludes_later:
  "excludes_current_year c result \<Longrightarrow> c \<le> c' \<Longrightarrow> excludes_current_year c' result"
  unfolding excludes_current_year_def list_all_iff using sql_lt_mono by blast

text \<open>
  The two annual queries compare \<open>Year\<close> with the constant 2025 and never read the
  clock. Run in 2024 on a table with a row of June 2024, both return the year 2024: the
  current year is in the result.
\<close>

theorem annual_summary_includes_2024:
  "\<not> excludes_current_year 2024 (annual_avg_sql (snapshot_weather june_2024_csv))
   \<and> \<not> excludes_current_year 2024 (annual_total_prcp (snapshot_weather june_2024_csv))"
  by code_simp

text \<open>
  Claim C5, amended. Every year in the result of either annual query is before 2025, the
  constant the queries are written with; so it is before the current year whenever the
  queries run in 2025 or later.
\<close>

theorem annual_summary_before_2025:
  "excludes_current_year 2025 (annual_avg_sql weather)
   \<and> excludes_current_year 2025 (annual_total_prcp weather)
   \<and> (2025 \<le> current_year \<longrightarrow>
        excludes_current_year current_year (annual_avg_sql weather)
        \<and> excludes_current_year current_year (annual_total_prcp weather))"
  using annual_excludes[of weather] excludes_later by blast

theorem annual_summary_before_2025_witness:
  "annual_avg_sql (snapshot_weather june_2024_csv) = [(Some 2024, Some 70)]
   \<and> annual_total_prcp (snapshot_weather june_2024_csv) = [(Some 2024, Some (1 / 10))]
   \<and> (2025::int) \<le> 2026
   \<and> excludes_current_year 2026 (annual_avg_sql (snapshot_weather june_2024_csv))
   \<and> excludes_current_year 2026 (annual_total_prcp (snapshot_weather june_2024_csv))"
proof -
  have e: "annual_avg_sql (snapshot_weather june_2024_csv) = [(Some 2024, Some 70)]
     \<and> annual_total_prcp (snapshot_weather june_2024_csv) = [(Some 2024, Some (1 / 10))]"
    by code_simp
  have h: "(2025::int) \<le> 2026" by simp
  from annual_summary_before_2025[of "snapshot_weather june_2024_csv" 2026] h
  have "excludes_current_year 2026 (annual_avg_sql (snapshot_weather june_2024_csv))
        \<and> excludes_current_year 2026 (annual_total_prcp (snapshot_weather june_2024_csv))"
    by blast
  with e h show ?thesis by blast
qed


section \<open>Chance of rain on a calendar day\<close>







section \<open>Monthly climatology\<close>
























section \<open>Dry streaks\<close>

text \<open>The number that \<open>runs\<close> gives to a row: the rows of a maximal dry run, and
  no other dry row, have the number of the wet rows before the run.\<close>

lemma running_wet_append:
  "running_wet acc (xs @ ys)
   = running_wet acc xs @ running_wet (acc + wet_rows xs) ys"
  by (induction xs arbitrary: acc) (simp_all add: wet_rows_def Let_def ac_simps)

lemma running_wet_dry:
  "list_all (\<lambda>r. is_dry r = 1) run \<Longrightarrow> running_wet acc run = map (\<lambda>r. (r, acc)) run"
  by (induction run arbitrary: acc) (simp_all add: Let_def)

lemma running_wet_lower:
  "(r, g) \<in> set (running_wet acc xs) \<Longrightarrow> acc \<le> g"
proof (induction xs arbitrary: acc)
  case Nil
  then show ?case by simp
next
  case (Cons x xs)
  then show ?case by (fastforce simp: Let_def split: if_splits)
qed

lemma running_wet_after_wet:
  assumes "post = [] \<or> is_dry (hd post) = 0" and "(r, g) \<in> set (running_wet acc post)"
  shows "acc < g"
proof (cases post)
  case Nil
  with assms show ?thesis by simp
next
  case (Cons x xs)
  with assms have w: "is_dry x = 0" by simp
  from assms(2) Cons w have "(r, g) = (x, acc + 1) \<or> (r, g) \<in> set (running_wet (acc + 1) xs)"
    by (simp add: Let_def)
  then show ?thesis using running_wet_lower[of r g "acc + 1" xs] by auto
qed

lemma running_wet_before_wet:
  assumes "pre = [] \<or> is_dry (last pre) = 0" and "(r, g) \<in> set (running_wet acc pre)"
    and "is_dry r = 1"
  shows "g < acc + wet_rows pre"
  using assms
proof (induction pre arbitrary: acc)
  case Nil
  then show ?case by simp
next
  case (Cons x xs)
  show ?case
  proof (cases "xs = []")
    case True
    with Cons.prems show ?thesis by (auto simp: Let_def wet_rows_def split: if_splits)
  next
    case False
    with Cons.prems(1) have l: "xs = [] \<or> is_dry (last xs) = 0" by simp
    from False l have "last xs \<in> set xs" "is_dry (last xs) = 0" by simp_all
    then have "filter (\<lambda>r. is_dry r = 0) xs \<noteq> []" by (auto simp: filter_empty_conv)
    then have pos: "0 < wet_rows xs" by (simp add: wet_rows_def)
    let ?acc' = "acc + (if is_dry x = 0 then 1 else 0)"
    have w: "wet_rows (x # xs) = (if is_dry x = 0 then 1 else 0) + wet_rows xs"
      by (simp add: wet_rows_def)
    from Cons.prems(2) have "(r, g) = (x, ?acc') \<or> (r, g) \<in> set (running_wet ?acc' xs)"
      by (simp add: Let_def)
    then show ?thesis
    proof
      assume "(r, g) = (x, ?acc')"
      with Cons.prems(3) pos w show ?thesis by auto
    next
      assume "(r, g) \<in> set (running_wet ?acc' xs)"
      from Cons.IH[OF l this Cons.prems(3)] w show ?thesis by simp
    qed
  qed
qed

text \<open>The dry rows of the group of a maximal run are the rows of the run.\<close>

lemma group_of_run:
  assumes "maximal_dry_run pre run post"
  shows "filter (\<lambda>(r, g). g = wet_rows pre)
           (filter (\<lambda>(r, g). is_dry r = 1) (running_wet 0 (pre @ run @ post)))
         = map (\<lambda>r. (r, wet_rows pre)) run"
proof -
  let ?k = "wet_rows pre"
  let ?P = "\<lambda>p. (case p of (r, g) \<Rightarrow> is_dry r = 1) \<and> (case p of (r, g) \<Rightarrow> g = ?k)"
  from assms have dry: "list_all (\<lambda>r. is_dry r = 1) run"
    and pre: "pre = [] \<or> is_dry (last pre) = 0" and post: "post = [] \<or> is_dry (hd post) = 0"
    by (simp_all add: maximal_dry_run_def)
  have wr: "wet_rows run = 0" using dry by (induction run) (auto simp: wet_rows_def)
  have split: "running_wet 0 (pre @ run @ post)
     = running_wet 0 pre @ map (\<lambda>r. (r, ?k)) run @ running_wet ?k post"
    by (simp add: running_wet_append running_wet_dry[OF dry] wr)
  have 1: "filter ?P (running_wet 0 pre) = []"
    using running_wet_before_wet[OF pre, of _ _ 0] by (auto simp: filter_empty_conv)
  have 3: "filter ?P (running_wet ?k post) = []"
    using running_wet_after_wet[OF post, of _ _ ?k] by (auto simp: filter_empty_conv)
  have 2: "filter ?P (map (\<lambda>r. (r, ?k)) run) = map (\<lambda>r. (r, ?k)) run"
    using dry by (simp add: filter_map comp_def list_all_iff filter_id_conv)
  show ?thesis unfolding split by (simp add: 1 2 3)
qed

lemma filter_eq_distinct: "distinct xs \<Longrightarrow> x \<in> set xs \<Longrightarrow> filter (\<lambda>y. y = x) xs = [x]"
proof (induction xs)
  case Nil
  then show ?case by simp
next
  case (Cons a xs)
  show ?case
  proof (cases "a = x")
    case True
    with Cons.prems have "x \<notin> set xs" by simp
    then have "filter (\<lambda>y. y = x) xs = []" by (auto simp: filter_empty_conv)
    with True show ?thesis by simp
  next
    case False
    with Cons show ?thesis by simp
  qed
qed

lemma weather_clean_sorted:
  "sorted_wrt (\<lambda>a b. Date_c a \<le> Date_c b) (weather_clean weather)"
  unfolding weather_clean_def
  by (rule sorted_order_by) auto

lemma sorted_below_last:
  fixes xs :: "int list"
  shows "sorted xs \<Longrightarrow> y \<in> set xs \<Longrightarrow> y \<le> last xs"
  by (induction xs) auto

lemma run_first_last:
  assumes srt: "sorted_wrt (\<lambda>a b. Date_c a \<le> Date_c b) (pre @ run @ post)" and ne: "run \<noteq> []"
  shows "Min (set (map Date_c run)) = Date_c (hd run)"
    and "Max (set (map Date_c run)) = Date_c (last run)"
proof -
  from srt have "sorted_wrt (\<lambda>a b. Date_c a \<le> Date_c b) run"
    by (simp add: sorted_wrt_append)
  then have s: "sorted (map Date_c run)" by (simp add: sorted_wrt_map)
  from ne have n: "map Date_c run \<noteq> []" by simp
  have "Min (set (map Date_c run)) = hd (map Date_c run)"
  proof (rule Min_eqI)
    show "finite (set (map Date_c run))" by simp
    show "hd (map Date_c run) \<in> set (map Date_c run)" using n by (rule hd_in_set)
    fix y assume "y \<in> set (map Date_c run)"
    with s n show "hd (map Date_c run) \<le> y" by (cases "map Date_c run") auto
  qed
  with ne show "Min (set (map Date_c run)) = Date_c (hd run)" by (simp add: hd_map)
  have "Max (set (map Date_c run)) = last (map Date_c run)"
  proof (rule Max_eqI)
    show "finite (set (map Date_c run))" by simp
    show "last (map Date_c run) \<in> set (map Date_c run)" using n by (rule last_in_set)
    fix y assume "y \<in> set (map Date_c run)"
    with s show "y \<le> last (map Date_c run)" by (rule sorted_below_last)
  qed
  with ne show "Max (set (map Date_c run)) = Date_c (last run)" by (simp add: last_map)
qed

text \<open>The group of a maximal dry run: one row, with the first day, the last day and the
  number of days of the run.\<close>

lemma streak_of_run:
  assumes wc: "weather_clean weather = pre @ run @ post" and mx: "maximal_dry_run pre run post"
  shows "filter (\<lambda>s. wet_group s = wet_rows pre) (streak_groups weather)
         = [\<lparr>wet_group = wet_rows pre, StartDate = Date_c (hd run), EndDate = Date_c (last run),
             StreakDays = length run\<rparr>]"
proof -
  let ?k = "wet_rows pre"
  let ?sel = "filter (\<lambda>(r, g). is_dry r = 1) (runs weather)"
  let ?F = "\<lambda>k. let grp = filter (\<lambda>(r, g). g = k) ?sel
                  in \<lparr>wet_group = k,
                      StartDate = Min (set (map (\<lambda>(r, g). Date_c r) grp)),
                      EndDate = Max (set (map (\<lambda>(r, g). Date_c r) grp)),
                      StreakDays = length grp\<rparr>"
  let ?keys = "remdups (map snd ?sel)"
  from mx have ne: "run \<noteq> []" by (simp add: maximal_dry_run_def)
  have grp: "filter (\<lambda>(r, g). g = ?k) ?sel = map (\<lambda>r. (r, ?k)) run"
    unfolding runs_def wc by (rule group_of_run[OF mx])
  have "set (map (\<lambda>r. (r, ?k)) run) \<subseteq> set ?sel"
    unfolding grp[symmetric] by (rule filter_is_subset)
  with ne have "(hd run, ?k) \<in> set ?sel" by (cases run) auto
  then have "?k \<in> snd ` set ?sel" by force
  then have k: "?k \<in> set ?keys" by simp
  have sg: "streak_groups weather = map ?F ?keys" by (simp add: streak_groups_def Let_def)
  have "filter (\<lambda>s. wet_group s = ?k) (map ?F ?keys) = map ?F (filter (\<lambda>k. k = ?k) ?keys)"
    by (simp add: filter_map comp_def Let_def)
  also have "\<dots> = [?F ?k]" using filter_eq_distinct[OF distinct_remdups k] by simp
  finally have f: "filter (\<lambda>s. wet_group s = ?k) (streak_groups weather) = [?F ?k]"
    unfolding sg .
  from weather_clean_sorted[of weather] wc
  have srt: "sorted_wrt (\<lambda>a b. Date_c a \<le> Date_c b) (pre @ run @ post)" by simp
  have "?F ?k = \<lparr>wet_group = ?k, StartDate = Min (set (map Date_c run)),
                  EndDate = Max (set (map Date_c run)), StreakDays = length run\<rparr>"
    unfolding Let_def grp by (simp add: comp_def)
  with run_first_last[OF srt ne] f show ?thesis by simp
qed

lemma dry_streaks_rows:
  "r \<in> set (dry_streaks weather) \<longleftrightarrow>
     (\<exists>s w. s \<in> set (streak_groups weather) \<and> 150 \<le> StreakDays s \<and> w \<in> set weather
        \<and> Date w = Some (EndDate s + 1) \<and> sql_gt (PRCP w) (1 / 100)
        \<and> r = \<lparr>EndDate_out = Date w, StartDate_out = StartDate s,
                 streak_length = StreakDays s, Rain = PRCP w\<rparr>)"
proof
  assume "r \<in> set (dry_streaks weather)"
  then show "\<exists>s w. s \<in> set (streak_groups weather) \<and> 150 \<le> StreakDays s \<and> w \<in> set weather
        \<and> Date w = Some (EndDate s + 1) \<and> sql_gt (PRCP w) (1 / 100)
        \<and> r = \<lparr>EndDate_out = Date w, StartDate_out = StartDate s,
                 streak_length = StreakDays s, Rain = PRCP w\<rparr>"
    unfolding dry_streaks_def rain_on_next_day_def streaks_def by auto
next
  assume "\<exists>s w. s \<in> set (streak_groups weather) \<and> 150 \<le> StreakDays s \<and> w \<in> set weather
        \<and> Date w = Some (EndDate s + 1) \<and> sql_gt (PRCP w) (1 / 100)
        \<and> r = \<lparr>EndDate_out = Date w, StartDate_out = StartDate s,
                 streak_length = StreakDays s, Rain = PRCP w\<rparr>"
  then obtain s w where s: "s \<in> set (streak_groups weather)" "150 \<le> StreakDays s"
    and w: "w \<in> set weather" "Date w = Some (EndDate s + 1)" "sql_gt (PRCP w) (1 / 100)"
    and r: "r = \<lparr>EndDate_out = Date w, StartDate_out = StartDate s,
                 streak_length = StreakDays s, Rain = PRCP w\<rparr>" by blast
  from s w have "(s, w) \<in> set (rain_on_next_day weather)"
    unfolding rain_on_next_day_def streaks_def by auto
  then have "(case (s, w) of (s, w) \<Rightarrow> \<lparr>EndDate_out = Date w, StartDate_out = StartDate s,
                     streak_length = StreakDays s, Rain = PRCP w\<rparr>) \<in> set (dry_streaks weather)"
    unfolding dry_streaks_def set_map by (rule imageI)
  with r show "r \<in> set (dry_streaks weather)" by simp
qed





lemma synthetic_streaks:
  "streaks (history_weather synthetic_csv)
   = [\<lparr>wet_group = 99, StartDate = day_number 100, EndDate = day_number 260,
       StreakDays = 161\<rparr>]"
  by code_simp

lemma synthetic_dry_streaks:
  "dry_streaks (history_weather synthetic_csv)
   = [\<lparr>EndDate_out = Some (day_number 261), StartDate_out = day_number 100,
       streak_length = 161, Rain = Some (1 / 2)\<rparr>]"
  by code_simp

lemma short_clean:
  "weather_clean (history_weather short_csv)
   = clean_days short_day 1 99 @ clean_days short_day 100 248 @ clean_days short_day 249 400"
  by code_simp

lemma short_run:
  "maximal_dry_run (clean_days short_day 1 99) (clean_days short_day 100 248)
     (clean_days short_day 249 400)
   \<and> length (clean_days short_day 100 248) = 149"
  by code_simp

lemma short_dry_streaks: "dry_streaks (history_weather short_csv) = []"
  by code_simp




lemma trailing_streaks:
  "streaks (history_weather trailing_csv)
   = [\<lparr>wet_group = 1, StartDate = day_number 2, EndDate = day_number 151, StreakDays = 150\<rparr>]
   \<and> dry_streaks (history_weather trailing_csv) = []"
  by code_simp

text \<open>
  The result of the query has four columns, and the one called \<open>EndDate\<close> is
  \<open>RainDate\<close>, the day of the rain: for the series of 400 days it holds day 261. Day 260,
  the last dry day, is in no column of the result.
\<close>

theorem end_date_is_rain_date:
  "EndDate_out (hd (dry_streaks (history_weather synthetic_csv))) \<noteq> Some (day_number 260)"
  unfolding synthetic_dry_streaks by code_simp

text \<open>
  Claim C1, amended. For the series of 400 days with days 100 to 260 dry and half an inch
  on day 261, the query returns exactly one row, with \<open>StartDate\<close> day 100,
  \<open>streak_length\<close> 161, \<open>Rain\<close> 0.5 and, as \<open>EndDate\<close>, day 261, the day of that rain.
  The last dry day, day 260, is the \<open>EndDate\<close> of the one row of the intermediate
  result \<open>streaks\<close>.
\<close>

theorem synthetic_series_one_streak:
  "dry_streaks (history_weather synthetic_csv)
     = [\<lparr>EndDate_out = Some (day_number 261), StartDate_out = day_number 100,
         streak_length = 161, Rain = Some (1 / 2)\<rparr>]
   \<and> streaks (history_weather synthetic_csv)
     = [\<lparr>wet_group = 99, StartDate = day_number 100, EndDate = day_number 260,
         StreakDays = 161\<rparr>]"
  using synthetic_dry_streaks synthetic_streaks by (rule conjI)



text \<open>
  Claim C3. A maximal run of fewer than 150 dry days is never in the result: it has no row
  in \<open>streaks\<close>, and every row of the result has a length of 150 or more.
\<close>

theorem short_runs_not_reported:
  assumes wc: "weather_clean weather = pre @ run @ post" and mx: "maximal_dry_run pre run post"
    and len: "length run < 150"
  shows "\<not> reported weather run
    \<and> \<not> list_ex (\<lambda>s. wet_group s = wet_rows pre) (streaks weather)
    \<and> list_all (\<lambda>r. 150 \<le> streak_length r) (dry_streaks weather)"
proof (intro conjI)
  show all: "list_all (\<lambda>r. 150 \<le> streak_length r) (dry_streaks weather)"
    unfolding list_all_iff
  proof
    fix r assume "r \<in> set (dry_streaks weather)"
    then show "150 \<le> streak_length r" unfolding dry_streaks_rows by auto
  qed
  with len show "\<not> reported weather run"
    unfolding reported_def list_ex_iff list_all_iff by auto
  have "filter (\<lambda>s. wet_group s = wet_rows pre) (streaks weather)
        = filter (\<lambda>s. 150 \<le> StreakDays s)
            (filter (\<lambda>s. wet_group s = wet_rows pre) (streak_groups weather))"
    unfolding streaks_def by (simp add: conj_commute)
  also have "\<dots> = []" unfolding streak_of_run[OF wc mx] using len by simp
  finally show "\<not> list_ex (\<lambda>s. wet_group s = wet_rows pre) (streaks weather)"
    unfolding list_ex_iff by (auto simp: filter_empty_conv)
qed

theorem short_runs_not_reported_witness:
  "weather_clean (history_weather short_csv)
     = clean_days short_day 1 99 @ clean_days short_day 100 248 @ clean_days short_day 249 400
   \<and> maximal_dry_run (clean_days short_day 1 99) (clean_days short_day 100 248)
       (clean_days short_day 249 400)
   \<and> length (clean_days short_day 100 248) = 149
   \<and> \<not> reported (history_weather short_csv) (clean_days short_day 100 248)
   \<and> dry_streaks (history_weather short_csv) = []"
proof -
  from short_run have m: "maximal_dry_run (clean_days short_day 1 99)
      (clean_days short_day 100 248) (clean_days short_day 249 400)"
    and l: "length (clean_days short_day 100 248) = 149" by simp_all
  from l have l': "length (clean_days short_day 100 248) < 150" by simp
  from short_runs_not_reported[OF short_clean m l']
  have "\<not> reported (history_weather short_csv) (clean_days short_day 100 248)" by simp
  with short_clean m l short_dry_streaks show ?thesis by (intro conjI)
qed

end
